theory Spec2Isabelle
  imports Main "HOL-Library.Sublist"
begin

section \<open>Python values and strings\<close>

text \<open>
  A Python \<open>str\<close> is a sequence of Unicode code points; slicing and \<open>len\<close> count code
  points, and \<open>str.strip()\<close> removes Unicode whitespace. A string is therefore modelled as a
  list of code points (natural numbers), and the literals of the source are written with
  \<open>lit\<close>, which maps each character of an ASCII literal to its code point.
\<close>

type_synonym pystr = "nat list"

definition lit :: "string \<Rightarrow> pystr" where
  "lit s = map of_char s"

text \<open>
  The values of a passage's attribute mapping are heterogeneous. \<open>PObj t s\<close> stands for any
  other displayable object (a float, a list, ...), given by its truth value \<open>t\<close> and its
  rendering \<open>s\<close> under \<open>format\<close>. These are the values whose truth test and formatting
  return; objects on which they raise, and the interpreter's limit on the digits of an
  integer conversion, come with the serializers' exceptions further down.
\<close>

datatype pyval =
    PNone
  | PBool bool
  | PInt int
  | PStr pystr
  | PObj bool pystr

text \<open>Python's truth test, as the operator \<open>or\<close> applies it.\<close>

fun truthy :: "pyval \<Rightarrow> bool" where
  "truthy PNone = False"
| "truthy (PBool b) = b"
| "truthy (PInt i) = (i \<noteq> 0)"
| "truthy (PStr s) = (s \<noteq> [])"
| "truthy (PObj t s) = t"

text \<open>\<open>a or b\<close>: the left operand when it is truthy, the right operand otherwise.\<close>

definition py_or :: "pyval \<Rightarrow> pyval \<Rightarrow> pyval" where
  "py_or a b = (if truthy a then a else b)"

text \<open>Decimal rendering of a non-negative integer, most significant digit first.\<close>

fun dec :: "nat \<Rightarrow> pystr" where
  "dec n = (if n < 10 then [48 + n] else dec (n div 10) @ [48 + n mod 10])"

declare dec.simps [simp del]

definition str_int :: "int \<Rightarrow> pystr" where
  "str_int i = (if i < 0 then 45 # dec (nat (- i)) else dec (nat i))"

text \<open>What an f-string replacement field \<open>{v}\<close> renders for a value.\<close>

fun py_format :: "pyval \<Rightarrow> pystr" where
  "py_format PNone = lit ''None''"
| "py_format (PBool b) = (if b then lit ''True'' else lit ''False'')"
| "py_format (PInt i) = str_int i"
| "py_format (PStr s) = s"
| "py_format (PObj t s) = s"

text \<open>
  The code points for which Python's \<open>str.isspace\<close> holds; \<open>str.strip()\<close> without
  argument removes exactly these from both ends.
\<close>

definition isspace :: "nat \<Rightarrow> bool" where
  "isspace c \<longleftrightarrow>
     (9 \<le> c \<and> c \<le> 13) \<or> (28 \<le> c \<and> c \<le> 32) \<or> c = 133 \<or> c = 160 \<or> c = 5760 \<or>
     (8192 \<le> c \<and> c \<le> 8202) \<or> c = 8232 \<or> c = 8233 \<or> c = 8239 \<or> c = 8287 \<or> c = 12288"

definition lstrip :: "pystr \<Rightarrow> pystr" where
  "lstrip s = dropWhile isspace s"

definition rstrip :: "pystr \<Rightarrow> pystr" where
  "rstrip s = rev (dropWhile isspace (rev s))"

definition strip :: "pystr \<Rightarrow> pystr" where
  "strip s = rstrip (lstrip s)"

text \<open>\<open>sep.join(parts)\<close>.\<close>

fun join :: "pystr \<Rightarrow> pystr list \<Rightarrow> pystr" where
  "join sep [] = []"
| "join sep [x] = x"
| "join sep (x # y # ys) = x @ sep @ join sep (y # ys)"

section \<open>Passages, attribute mappings and citation records\<close>

text \<open>
  A \<open>Document\<close> carries its text and a \<open>dict\<close> of attributes. \<open>dict.get(key, default)\<close>
  returns the default for an absent key; \<open>dict.get(key)\<close> has the default \<open>None\<close>.
\<close>

record document =
  page_content :: pystr
  metadata :: "pystr \<rightharpoonup> pyval"

definition dict_get :: "(pystr \<rightharpoonup> pyval) \<Rightarrow> pystr \<Rightarrow> pyval \<Rightarrow> pyval" where
  "dict_get m k d = (case m k of None \<Rightarrow> d | Some v \<Rightarrow> v)"

text \<open>The record stored for each chunk: the dict with the keys page, source and snippet.\<close>

record citation =
  page :: pyval
  source :: pyval
  snippet :: pystr

text \<open>
  The citations table is a Python \<open>dict\<close>, which keeps its keys in insertion order. It is
  modelled as an association list in that order; \<open>citations[k] = v\<close> replaces the value of
  a key already present, in place, and appends a new key at the end.
\<close>

type_synonym citations = "(pystr \<times> citation) list"

fun dict_set :: "citations \<Rightarrow> pystr \<Rightarrow> citation \<Rightarrow> citations" where
  "dict_set [] k v = [(k, v)]"
| "dict_set ((k', v') # rest) k v =
     (if k' = k then (k, v) # rest else (k', v') # dict_set rest k v)"

section \<open>The serializers\<close>

text \<open>
  \<open>page_num = doc.metadata.get("page") or doc.metadata.get("page_number", "unknown")\<close>,
  the expression both serializers evaluate.
\<close>

definition page_num :: "document \<Rightarrow> pyval" where
  "page_num doc =
     py_or (dict_get (metadata doc) (lit ''page'') PNone)
           (dict_get (metadata doc) (lit ''page_number'') (PStr (lit ''unknown'')))"

subsection \<open>serialize_chunks\<close>

text \<open>
  The body of the loop, for the passage \<open>doc\<close> at the 1-based position \<open>idx\<close>: the string
  appended to \<open>context_parts\<close>.
\<close>

definition chunk_block :: "nat \<Rightarrow> document \<Rightarrow> pystr" where
  "chunk_block idx doc =
     (let chunk_header = lit ''Chunk '' @ dec idx @ lit '' (page='' @ py_format (page_num doc) @ lit ''):'';
          chunk_content = strip (page_content doc)
      in chunk_header @ lit ''\<newline>'' @ chunk_content)"

text \<open>
  \<open>for idx, doc in enumerate(docs, start=1)\<close>: the loop over the remaining passages, with
  the next index and the \<open>context_parts\<close> built so far.
\<close>

fun chunks_loop :: "nat \<Rightarrow> document list \<Rightarrow> pystr list \<Rightarrow> pystr list" where
  "chunks_loop idx [] context_parts = context_parts"
| "chunks_loop idx (doc # docs) context_parts =
     chunks_loop (idx + 1) docs (context_parts @ [chunk_block idx doc])"

definition chunks_parts :: "document list \<Rightarrow> pystr list" where
  "chunks_parts docs = chunks_loop 1 docs []"

definition serialize_chunks :: "document list \<Rightarrow> pystr" where
  "serialize_chunks docs = join (lit ''\<newline>\<newline>'') (chunks_parts docs)"

subsection \<open>serialize_chunks_with_ids\<close>

definition chunk_id :: "nat \<Rightarrow> pystr" where
  "chunk_id idx = lit ''C'' @ dec idx"

definition ids_block :: "nat \<Rightarrow> document \<Rightarrow> pystr" where
  "ids_block idx doc =
     (let chunk_content = strip (page_content doc)
      in lit ''['' @ chunk_id idx @ lit ''] Chunk from page '' @ py_format (page_num doc) @ lit '':''
         @ lit ''\<newline>'' @ chunk_content)"

definition ids_citation :: "document \<Rightarrow> citation" where
  "ids_citation doc =
     (let source = dict_get (metadata doc) (lit ''source'') (PStr (lit ''unknown''));
          chunk_content = strip (page_content doc)
      in \<lparr>page = page_num doc, source = source, snippet = take 100 chunk_content @ lit ''...''\<rparr>)"

text \<open>The loop, with the next index and the two accumulators.\<close>

fun ids_loop :: "nat \<Rightarrow> document list \<Rightarrow> pystr list \<times> citations \<Rightarrow> pystr list \<times> citations" where
  "ids_loop idx [] acc = acc"
| "ids_loop idx (doc # docs) (context_parts, cits) =
     ids_loop (idx + 1) docs
       (context_parts @ [ids_block idx doc], dict_set cits (chunk_id idx) (ids_citation doc))"

definition ids_parts :: "document list \<Rightarrow> pystr list" where
  "ids_parts docs = fst (ids_loop 1 docs ([], []))"

definition serialize_chunks_with_ids :: "document list \<Rightarrow> pystr \<times> citations" where
  "serialize_chunks_with_ids docs =
     (let (context_parts, cits) = ids_loop 1 docs ([], [])
      in (join (lit ''\<newline>\<newline>'') context_parts, cits))"

section \<open>Auxiliary definitions for the statements\<close>

text \<open>Reading a decimal rendering back; used to show that \<open>dec\<close> is injective.\<close>

definition undec :: "pystr \<Rightarrow> nat" where
  "undec s = foldl (\<lambda>a d. 10 * a + (d - 48)) 0 s"


text \<open>Looking a citation ID up in the returned table.\<close>

definition lookup :: "citations \<Rightarrow> pystr \<Rightarrow> citation option" where
  "lookup cits k = map_of cits k"

section \<open>The serializers with their exceptions\<close>

text \<open>
  The operations of the source that can raise are the truth test that \<open>or\<close> applies to the
  \<open>page\<close> value and the formatting of a value in an f-string: both call a method of the
  value, and an attribute mapping may hold any object. An integer is formatted by
  \<open>str\<close>, which raises \<open>ValueError\<close> when the decimal has more digits than the
  interpreter's limit (\<open>sys.set_int_max_str_digits\<close>; 4300 by default, 0 for no limit).
  The definitions below follow the source again, over values that may raise, with the
  limit \<open>lim\<close> as a parameter and the result a sum: \<open>Inl\<close> is the exception that leaves
  the function.
\<close>

datatype py_error = ValueError | TypeError

text \<open>
  A value is either one of the values above, or an object given by what its truth test
  and its formatting do: return, or raise.
\<close>

datatype dynval =
    Val pyval
  | Obj "py_error + bool" "py_error + pystr"

fun truth_exc :: "dynval \<Rightarrow> py_error + bool" where
  "truth_exc (Val v) = Inr (truthy v)"
| "truth_exc (Obj t f) = t"

definition dec_exc :: "nat \<Rightarrow> nat \<Rightarrow> py_error + pystr" where
  "dec_exc lim n = (if 0 < lim \<and> lim < length (dec n) then Inl ValueError else Inr (dec n))"

definition str_int_exc :: "nat \<Rightarrow> int \<Rightarrow> py_error + pystr" where
  "str_int_exc lim i =
     (if 0 < lim \<and> lim < length (dec (nat \<bar>i\<bar>)) then Inl ValueError else Inr (str_int i))"

fun format_exc :: "nat \<Rightarrow> dynval \<Rightarrow> py_error + pystr" where
  "format_exc lim (Val (PInt i)) = str_int_exc lim i"
| "format_exc lim (Val v) = Inr (py_format v)"
| "format_exc lim (Obj t f) = f"

record document_exc =
  page_content_exc :: pystr
  metadata_exc :: "pystr \<rightharpoonup> dynval"

definition get_exc :: "(pystr \<rightharpoonup> dynval) \<Rightarrow> pystr \<Rightarrow> dynval \<Rightarrow> dynval" where
  "get_exc m k d = (case m k of None \<Rightarrow> d | Some v \<Rightarrow> v)"

text \<open>
  \<open>get("page") or get("page_number", "unknown")\<close>: the truth test of the left operand
  comes first, and the right operand is evaluated only when the test returns false.
\<close>

definition page_num_exc :: "document_exc \<Rightarrow> py_error + dynval" where
  "page_num_exc doc =
     (let a = get_exc (metadata_exc doc) (lit ''page'') (Val PNone)
      in case truth_exc a of
           Inl e \<Rightarrow> Inl e
         | Inr t \<Rightarrow>
             Inr (if t then a
                  else get_exc (metadata_exc doc) (lit ''page_number'') (Val (PStr (lit ''unknown'')))))"

text \<open>
  One pass of the loop of serialize_chunks: the page value, then the header, whose
  f-string formats the index and then the page value, then the trimmed content.
\<close>

definition chunk_block_exc :: "nat \<Rightarrow> nat \<Rightarrow> document_exc \<Rightarrow> py_error + pystr" where
  "chunk_block_exc lim idx doc =
     (case page_num_exc doc of
        Inl e \<Rightarrow> Inl e
      | Inr p \<Rightarrow>
          (case dec_exc lim idx of
             Inl e \<Rightarrow> Inl e
           | Inr i \<Rightarrow>
               (case format_exc lim p of
                  Inl e \<Rightarrow> Inl e
                | Inr ps \<Rightarrow>
                    Inr (lit ''Chunk '' @ i @ lit '' (page='' @ ps @ lit ''):'' @ lit ''\<newline>''
                         @ strip (page_content_exc doc)))))"

text \<open>An exception in one pass ends the loop and the call.\<close>

fun chunks_loop_exc :: "nat \<Rightarrow> nat \<Rightarrow> document_exc list \<Rightarrow> pystr list \<Rightarrow> py_error + pystr list" where
  "chunks_loop_exc lim idx [] context_parts = Inr context_parts"
| "chunks_loop_exc lim idx (doc # docs) context_parts =
     (case chunk_block_exc lim idx doc of
        Inl e \<Rightarrow> Inl e
      | Inr b \<Rightarrow> chunks_loop_exc lim (idx + 1) docs (context_parts @ [b]))"

definition serialize_chunks_exc :: "nat \<Rightarrow> document_exc list \<Rightarrow> py_error + pystr" where
  "serialize_chunks_exc lim docs =
     (case chunks_loop_exc lim 1 docs [] of
        Inl e \<Rightarrow> Inl e
      | Inr context_parts \<Rightarrow> Inr (join (lit ''\<newline>\<newline>'') context_parts))"

record citation_exc =
  page_exc :: dynval
  source_exc :: dynval
  snippet_exc :: pystr

type_synonym citations_exc = "(pystr \<times> citation_exc) list"

fun dict_set_exc :: "citations_exc \<Rightarrow> pystr \<Rightarrow> citation_exc \<Rightarrow> citations_exc" where
  "dict_set_exc [] k v = [(k, v)]"
| "dict_set_exc ((k', v') # rest) k v =
     (if k' = k then (k, v) # rest else (k', v') # dict_set_exc rest k v)"

text \<open>
  One pass of the loop of serialize_chunks_with_ids: the ID, whose f-string formats the
  index, the page value, the source, the trimmed content, and the block, whose f-string
  formats the page value. It gives the block, the ID and the citation record.
\<close>

definition ids_step_exc :: "nat \<Rightarrow> nat \<Rightarrow> document_exc \<Rightarrow> py_error + (pystr \<times> pystr \<times> citation_exc)" where
  "ids_step_exc lim idx doc =
     (case dec_exc lim idx of
        Inl e \<Rightarrow> Inl e
      | Inr i \<Rightarrow>
          (case page_num_exc doc of
             Inl e \<Rightarrow> Inl e
           | Inr p \<Rightarrow>
               (let source = get_exc (metadata_exc doc) (lit ''source'') (Val (PStr (lit ''unknown'')));
                    chunk_content = strip (page_content_exc doc)
                in case format_exc lim p of
                     Inl e \<Rightarrow> Inl e
                   | Inr ps \<Rightarrow>
                       Inr (lit ''['' @ (lit ''C'' @ i) @ lit ''] Chunk from page '' @ ps @ lit '':''
                              @ lit ''\<newline>'' @ chunk_content,
                            lit ''C'' @ i,
                            \<lparr>page_exc = p, source_exc = source,
                             snippet_exc = take 100 chunk_content @ lit ''...''\<rparr>))))"

fun ids_loop_exc ::
  "nat \<Rightarrow> nat \<Rightarrow> document_exc list \<Rightarrow> pystr list \<times> citations_exc \<Rightarrow> py_error + (pystr list \<times> citations_exc)" where
  "ids_loop_exc lim idx [] acc = Inr acc"
| "ids_loop_exc lim idx (doc # docs) (context_parts, cits) =
     (case ids_step_exc lim idx doc of
        Inl e \<Rightarrow> Inl e
      | Inr (b, k, c) \<Rightarrow> ids_loop_exc lim (idx + 1) docs (context_parts @ [b], dict_set_exc cits k c))"

definition serialize_chunks_with_ids_exc ::
  "nat \<Rightarrow> document_exc list \<Rightarrow> py_error + (pystr \<times> citations_exc)" where
  "serialize_chunks_with_ids_exc lim docs =
     (case ids_loop_exc lim 1 docs ([], []) of
        Inl e \<Rightarrow> Inl e
      | Inr (context_parts, cits) \<Rightarrow> Inr (join (lit ''\<newline>\<newline>'') context_parts, cits))"

text \<open>
  The condition on the input: a value whose truth test returns, a value whose formatting
  returns, and a passage whose \<open>page\<close> value, when present, is both and whose
  \<open>page_number\<close> value, when present, can be formatted. Nothing is asked of the \<open>source\<close>
  value, nor of the keys present.
\<close>

definition testable :: "dynval \<Rightarrow> bool" where
  "testable v = (case truth_exc v of Inl e \<Rightarrow> False | Inr t \<Rightarrow> True)"

definition displayable :: "nat \<Rightarrow> dynval \<Rightarrow> bool" where
  "displayable lim v = (case format_exc lim v of Inl e \<Rightarrow> False | Inr s \<Rightarrow> True)"

definition passage_ok :: "nat \<Rightarrow> document_exc \<Rightarrow> bool" where
  "passage_ok lim doc =
     ((case metadata_exc doc (lit ''page'') of
         None \<Rightarrow> True
       | Some v \<Rightarrow> testable v \<and> displayable lim v)
      \<and> (case metadata_exc doc (lit ''page_number'') of
            None \<Rightarrow> True
          | Some v \<Rightarrow> displayable lim v))"

text \<open>A passage of plain values, as a passage of the wider type.\<close>

definition plain :: "document \<Rightarrow> document_exc" where
  "plain doc =
     \<lparr>page_content_exc = page_content doc,
      metadata_exc = (\<lambda>k. map_option Val (metadata doc k))\<rparr>"

definition plain_citation :: "citation \<Rightarrow> citation_exc" where
  "plain_citation c = \<lparr>page_exc = Val (page c), source_exc = Val (source c), snippet_exc = snippet c\<rparr>"

section \<open>The loops, position by position\<close>

lemma upt_shift: "[idx..<idx + Suc n] = idx # [Suc idx..<Suc idx + n]"
  by (subst upt_rec) simp


lemma undec_dec: "undec (dec n) = n"
proof (induction n rule: dec.induct)
  case (1 n)
  show ?case
  proof (cases "n < 10")
    case True
    then show ?thesis by (simp add: dec.simps [of n] undec_def)
  next
    case False
    then have "undec (dec (n div 10)) = n div 10" using 1 by simp
    then show ?thesis using False by (simp add: dec.simps [of n] undec_def)
  qed
qed

lemma dec_inj: "dec m = dec n \<Longrightarrow> m = n"
  by (metis undec_dec)

lemma chunk_id_inj: "chunk_id m = chunk_id n \<Longrightarrow> m = n"
  by (simp add: chunk_id_def dec_inj)

lemma dict_set_fresh: "k \<notin> fst ` set cits \<Longrightarrow> dict_set cits k v = cits @ [(k, v)]"
  by (induction cits) auto

text \<open>
  Every key already in the table belongs to an earlier index, so each assignment of the
  loop adds a new key.
\<close>

lemma ids_loop_eq:
  "\<forall>k \<in> fst ` set cits. \<exists>j < idx. k = chunk_id j \<Longrightarrow>
   ids_loop idx docs (parts, cits) =
     (parts @ map (\<lambda>(i, d). ids_block i d) (zip [idx..<idx + length docs] docs),
      cits @ map (\<lambda>(i, d). (chunk_id i, ids_citation d)) (zip [idx..<idx + length docs] docs))"
proof (induction docs arbitrary: idx parts cits)
  case Nil
  then show ?case by simp
next
  case (Cons d ds)
  have fresh: "chunk_id idx \<notin> fst ` set cits"
  proof
    assume "chunk_id idx \<in> fst ` set cits"
    then obtain j where "j < idx" "chunk_id idx = chunk_id j" using Cons.prems by blast
    then show False using chunk_id_inj by blast
  qed
  have set: "dict_set cits (chunk_id idx) (ids_citation d) = cits @ [(chunk_id idx, ids_citation d)]"
    using fresh by (rule dict_set_fresh)
  have inv: "\<forall>k \<in> fst ` set (cits @ [(chunk_id idx, ids_citation d)]). \<exists>j < Suc idx. k = chunk_id j"
    using Cons.prems by (auto intro: less_SucI)
  have upt: "[idx..<idx + length (d # ds)] = idx # [Suc idx..<Suc idx + length ds]"
    using upt_shift [of idx "length ds"] by simp
  show ?case unfolding upt using Cons.IH [OF inv] by (simp add: set)
qed

lemma zip_upt_map: "map f (zip [Suc 0..<Suc (length xs)] xs) = map (\<lambda>i. f (Suc i, xs ! i)) [0..<length xs]"
  by (rule nth_equalityI) (auto simp del: upt_Suc)


lemma ids_loop_start:
  "ids_loop (Suc 0) docs ([], []) =
     (map (\<lambda>i. ids_block (Suc i) (docs ! i)) [0..<length docs],
      map (\<lambda>i. (chunk_id (Suc i), ids_citation (docs ! i))) [0..<length docs])"
  using ids_loop_eq [of "[]" "Suc 0" docs "[]"]
    zip_upt_map [of "\<lambda>(i, d). ids_block i d" docs]
    zip_upt_map [of "\<lambda>(i, d). (chunk_id i, ids_citation d)" docs]
  by (simp del: upt_Suc)

lemma ids_parts_eq:
  "ids_parts docs = map (\<lambda>i. ids_block (Suc i) (docs ! i)) [0..<length docs]"
  by (simp add: ids_parts_def ids_loop_start del: upt_Suc)

lemma with_ids_eq:
  "serialize_chunks_with_ids docs =
     (join (lit ''\<newline>\<newline>'') (ids_parts docs),
      map (\<lambda>i. (chunk_id (Suc i), ids_citation (docs ! i))) [0..<length docs])"
  by (simp add: serialize_chunks_with_ids_def ids_loop_start ids_parts_eq del: upt_Suc)



lemma citation_keys:
  "map fst (snd (serialize_chunks_with_ids docs)) = map (\<lambda>i. chunk_id (Suc i)) [0..<length docs]"
  by (simp add: with_ids_eq comp_def del: upt_Suc)

lemma citation_keys_distinct: "distinct (map fst (snd (serialize_chunks_with_ids docs)))"
  unfolding citation_keys
  by (auto simp: distinct_map inj_on_def dest: chunk_id_inj)

lemma lookup_citation:
  assumes "i < length docs"
  shows "lookup (snd (serialize_chunks_with_ids docs)) (chunk_id (Suc i)) = Some (ids_citation (docs ! i))"
proof -
  let ?cits = "snd (serialize_chunks_with_ids docs)"
  have "?cits ! i = (chunk_id (Suc i), ids_citation (docs ! i))"
    using assms by (simp add: with_ids_eq del: upt_Suc)
  moreover have "i < length ?cits" using assms by (simp add: with_ids_eq del: upt_Suc)
  ultimately have "(chunk_id (Suc i), ids_citation (docs ! i)) \<in> set ?cits"
    by (metis nth_mem)
  then show ?thesis unfolding lookup_def
    using citation_keys_distinct [of docs] by simp
qed

section \<open>Trimming\<close>





lemma dec_digit: "n < 10 \<Longrightarrow> dec n = [48 + n]"
  by (simp add: dec.simps)


section \<open>Empty input\<close>

text \<open>
  C5: for the empty input sequence, serialize_chunks returns the empty string and
  serialize_chunks_with_ids returns the pair of the empty string and the empty citations
  mapping.
\<close>

theorem empty_input:
  "serialize_chunks [] = [] \<and> serialize_chunks_with_ids [] = ([], [])"
  by (simp add: serialize_chunks_def chunks_parts_def serialize_chunks_with_ids_def)

section \<open>Page resolution\<close>



section \<open>The concrete scenario\<close>

text \<open>
  C2: for the passages with content "Alpha text." and attributes page 1, source "doc.pdf",
  and content "Beta text." and attribute page_number 2, serialize_chunks_with_ids returns
  exactly the context and the citations table of the specification.
\<close>

theorem concrete_scenario:
  "serialize_chunks_with_ids
     [\<lparr>page_content = lit ''Alpha text.'',
       metadata = [lit ''page'' \<mapsto> PInt 1, lit ''source'' \<mapsto> PStr (lit ''doc.pdf'')]\<rparr>,
      \<lparr>page_content = lit ''Beta text.'',
       metadata = [lit ''page_number'' \<mapsto> PInt 2]\<rparr>]
   = (lit ''[C1] Chunk from page 1:\<newline>Alpha text.\<newline>\<newline>[C2] Chunk from page 2:\<newline>Beta text.'',
      [(lit ''C1'', \<lparr>page = PInt 1, source = PStr (lit ''doc.pdf''), snippet = lit ''Alpha text....''\<rparr>),
       (lit ''C2'', \<lparr>page = PInt 2, source = PStr (lit ''unknown''), snippet = lit ''Beta text....''\<rparr>)])"
  by (simp add: serialize_chunks_with_ids_def ids_block_def ids_citation_def chunk_id_def
      page_num_def py_or_def dict_get_def str_int_def dec_digit strip_def lstrip_def rstrip_def
      isspace_def lit_def)

section \<open>Ordering\<close>



section \<open>Snippets\<close>

text \<open>
  C4: the snippet of every citation record is the first 100 characters of the trimmed
  content followed by "...", whatever the length: trimmed content of at most 100 characters
  (50, say) is kept whole before the suffix, and longer content (150, say) gives 100
  characters and the suffix.
\<close>

theorem snippet_truncation:
  assumes "i < length docs"
  shows "map_option snippet (lookup (snd (serialize_chunks_with_ids docs)) (chunk_id (Suc i)))
           = Some (take 100 (strip (page_content (docs ! i))) @ lit ''...'')
       \<and> (length (strip (page_content (docs ! i))) \<le> 100 \<longrightarrow>
            map_option snippet (lookup (snd (serialize_chunks_with_ids docs)) (chunk_id (Suc i)))
              = Some (strip (page_content (docs ! i)) @ lit ''...''))
       \<and> (100 \<le> length (strip (page_content (docs ! i))) \<longrightarrow>
            map_option (length \<circ> snippet) (lookup (snd (serialize_chunks_with_ids docs)) (chunk_id (Suc i)))
              = Some 103)"
  using assms by (simp add: lookup_citation ids_citation_def lit_def)

theorem snippet_truncation_witness:
  "map_option snippet (lookup (snd (serialize_chunks_with_ids
      [\<lparr>page_content = replicate 50 97, metadata = Map.empty\<rparr>,
       \<lparr>page_content = replicate 150 98, metadata = Map.empty\<rparr>])) (lit ''C1''))
     = Some (replicate 50 97 @ lit ''...'')
   \<and> map_option snippet (lookup (snd (serialize_chunks_with_ids
      [\<lparr>page_content = replicate 50 97, metadata = Map.empty\<rparr>,
       \<lparr>page_content = replicate 150 98, metadata = Map.empty\<rparr>])) (lit ''C2''))
     = Some (replicate 100 98 @ lit ''...'')"
  using snippet_truncation [of 0 "[\<lparr>page_content = replicate 50 97, metadata = Map.empty\<rparr>,
       \<lparr>page_content = replicate 150 98, metadata = Map.empty\<rparr>]"]
    snippet_truncation [of 1 "[\<lparr>page_content = replicate 50 97, metadata = Map.empty\<rparr>,
       \<lparr>page_content = replicate 150 98, metadata = Map.empty\<rparr>]"]
  by (simp add: chunk_id_def dec_digit strip_def lstrip_def rstrip_def isspace_def lit_def)

section \<open>Trimming of the content\<close>



section \<open>The source attribute\<close>

text \<open>
  C7: the source field of every citation record is the value of the \<open>source\<close> attribute
  when the key is present, also when that value is falsy (the empty string of the instance),
  and the string \<open>unknown\<close> only when the key is absent.
\<close>

theorem source_default:
  assumes "i < length docs"
  shows "map_option source (lookup (snd (serialize_chunks_with_ids docs)) (chunk_id (Suc i)))
           = Some (case metadata (docs ! i) (lit ''source'') of
                     Some v \<Rightarrow> v
                   | None \<Rightarrow> PStr (lit ''unknown''))"
  using assms by (simp add: lookup_citation ids_citation_def dict_get_def)

theorem source_default_witness:
  "map_option source (lookup (snd (serialize_chunks_with_ids
      [\<lparr>page_content = lit ''a'', metadata = [lit ''source'' \<mapsto> PStr (lit '''')]\<rparr>,
       \<lparr>page_content = lit ''b'', metadata = [lit ''page'' \<mapsto> PInt 3]\<rparr>])) (lit ''C1''))
     = Some (PStr (lit ''''))
   \<and> \<not> truthy (PStr (lit ''''))
   \<and> map_option source (lookup (snd (serialize_chunks_with_ids
      [\<lparr>page_content = lit ''a'', metadata = [lit ''source'' \<mapsto> PStr (lit '''')]\<rparr>,
       \<lparr>page_content = lit ''b'', metadata = [lit ''page'' \<mapsto> PInt 3]\<rparr>])) (lit ''C2''))
     = Some (PStr (lit ''unknown''))"
  using source_default [of 0 "[\<lparr>page_content = lit ''a'', metadata = [lit ''source'' \<mapsto> PStr (lit '''')]\<rparr>,
       \<lparr>page_content = lit ''b'', metadata = [lit ''page'' \<mapsto> PInt 3]\<rparr>]"]
    source_default [of 1 "[\<lparr>page_content = lit ''a'', metadata = [lit ''source'' \<mapsto> PStr (lit '''')]\<rparr>,
       \<lparr>page_content = lit ''b'', metadata = [lit ''page'' \<mapsto> PInt 3]\<rparr>]"]
  by (simp add: chunk_id_def dec_digit lit_def)

section \<open>Totality\<close>

subsection \<open>The two models agree on plain values\<close>

text \<open>
  On passages of plain values and without a digit limit, the serializers with exceptions
  return what the serializers above compute.
\<close>

lemma truth_exc_plain: "truth_exc (Val v) = Inr (truthy v)"
  by simp

lemma format_exc_plain: "format_exc 0 (Val v) = Inr (py_format v)"
  by (cases v) (simp_all add: str_int_exc_def)

lemma plain_content: "page_content_exc (plain d) = page_content d"
  by (simp add: plain_def)

lemma plain_metadata: "metadata_exc (plain d) k = map_option Val (metadata d k)"
  by (simp add: plain_def)

lemma page_num_exc_plain: "page_num_exc (plain d) = Inr (Val (page_num d))"
  by (simp add: page_num_exc_def page_num_def plain_metadata get_exc_def dict_get_def py_or_def
      split: option.splits)

lemma chunk_block_exc_plain: "chunk_block_exc 0 idx (plain d) = Inr (chunk_block idx d)"
  by (simp add: chunk_block_exc_def page_num_exc_plain format_exc_plain dec_exc_def
      chunk_block_def plain_content)

lemma chunks_loop_exc_plain:
  "chunks_loop_exc 0 idx (map plain docs) parts = Inr (chunks_loop idx docs parts)"
  by (induction docs arbitrary: idx parts) (simp_all add: chunk_block_exc_plain)

lemma serialize_chunks_exc_plain:
  "serialize_chunks_exc 0 (map plain docs) = Inr (serialize_chunks docs)"
  by (simp add: serialize_chunks_exc_def serialize_chunks_def chunks_parts_def chunks_loop_exc_plain)

lemma ids_step_exc_plain:
  "ids_step_exc 0 idx (plain d) = Inr (ids_block idx d, chunk_id idx, plain_citation (ids_citation d))"
  by (simp add: ids_step_exc_def page_num_exc_plain format_exc_plain dec_exc_def
      ids_block_def chunk_id_def ids_citation_def plain_citation_def plain_content
      plain_metadata get_exc_def dict_get_def Let_def split: option.splits)

lemma dict_set_exc_plain:
  "dict_set_exc (map (\<lambda>(k, c). (k, plain_citation c)) cits) k' (plain_citation c')
     = map (\<lambda>(k, c). (k, plain_citation c)) (dict_set cits k' c')"
  by (induction cits) auto

lemma ids_loop_exc_plain:
  "ids_loop_exc 0 idx (map plain docs) (parts, map (\<lambda>(k, c). (k, plain_citation c)) cits)
     = Inr (fst (ids_loop idx docs (parts, cits)),
            map (\<lambda>(k, c). (k, plain_citation c)) (snd (ids_loop idx docs (parts, cits))))"
  by (induction docs arbitrary: idx parts cits) (simp_all add: ids_step_exc_plain dict_set_exc_plain)

lemma serialize_chunks_with_ids_exc_plain:
  "serialize_chunks_with_ids_exc 0 (map plain docs)
     = Inr (fst (serialize_chunks_with_ids docs),
            map (\<lambda>(k, c). (k, plain_citation c)) (snd (serialize_chunks_with_ids docs)))"
  using ids_loop_exc_plain [of 1 docs "[]" "[]"]
  by (simp add: serialize_chunks_with_ids_exc_def serialize_chunks_with_ids_def split: prod.splits)

subsection \<open>When the serializers return\<close>

lemma dec_nonempty: "dec n \<noteq> []"
  by (subst dec.simps) simp

lemma dec_length_mono: "m \<le> n \<Longrightarrow> length (dec m) \<le> length (dec n)"
proof (induction n arbitrary: m rule: dec.induct)
  case (1 n)
  show ?case
  proof (cases "m < 10")
    case True
    then have "length (dec m) = 1" by (simp add: dec.simps [of m])
    moreover have "1 \<le> length (dec n)" using dec_nonempty [of n] by (cases "dec n") auto
    ultimately show ?thesis by simp
  next
    case False
    then have n: "\<not> n < 10" using "1.prems" by simp
    have "m div 10 \<le> n div 10" using "1.prems" by (rule div_le_mono)
    then have "length (dec (m div 10)) \<le> length (dec (n div 10))" using "1.IH" n by simp
    then show ?thesis using False n by (simp add: dec.simps [of m] dec.simps [of n])
  qed
qed

lemma dec_exc_ok:
  "lim = 0 \<or> length (dec n) \<le> lim \<Longrightarrow> dec_exc lim n = Inr (dec n)"
  by (auto simp: dec_exc_def)

lemma page_num_exc_ok:
  assumes "passage_ok lim doc"
  shows "\<exists>p s. page_num_exc doc = Inr p \<and> format_exc lim p = Inr s"
proof (cases "metadata_exc doc (lit ''page'')")
  case None
  show ?thesis
  proof (cases "metadata_exc doc (lit ''page_number'')")
    case n2: None
    show ?thesis using None n2 by (simp add: page_num_exc_def get_exc_def)
  next
    case (Some w)
    then show ?thesis using None assms
      by (auto simp: page_num_exc_def get_exc_def passage_ok_def displayable_def split: sum.splits)
  qed
next
  case (Some v)
  then obtain t where t: "truth_exc v = Inr t" and dv: "displayable lim v"
    using assms by (auto simp: passage_ok_def testable_def split: sum.splits)
  show ?thesis
  proof (cases t)
    case True
    then show ?thesis using Some t dv
      by (auto simp: page_num_exc_def get_exc_def displayable_def split: sum.splits)
  next
    case False
    show ?thesis
    proof (cases "metadata_exc doc (lit ''page_number'')")
      case None
      then show ?thesis using Some t False by (simp add: page_num_exc_def get_exc_def)
    next
      case s2: (Some w)
      then show ?thesis using Some t False assms
        by (auto simp: page_num_exc_def get_exc_def passage_ok_def displayable_def split: sum.splits)
    qed
  qed
qed

lemma chunk_block_exc_ok:
  assumes "passage_ok lim doc" and "lim = 0 \<or> length (dec idx) \<le> lim"
  shows "\<exists>b. chunk_block_exc lim idx doc = Inr b"
  using page_num_exc_ok [OF assms(1)] dec_exc_ok [OF assms(2)]
  by (auto simp: chunk_block_exc_def)

lemma ids_step_exc_ok:
  assumes "passage_ok lim doc" and "lim = 0 \<or> length (dec idx) \<le> lim"
  shows "\<exists>b k c. ids_step_exc lim idx doc = Inr (b, k, c)"
  using page_num_exc_ok [OF assms(1)] dec_exc_ok [OF assms(2)]
  by (auto simp: ids_step_exc_def Let_def)

lemma chunks_loop_exc_ok:
  "\<forall>d \<in> set docs. passage_ok lim d \<Longrightarrow>
   lim = 0 \<or> length (dec (idx + length docs - 1)) \<le> lim \<Longrightarrow>
   \<exists>parts'. chunks_loop_exc lim idx docs parts = Inr parts' \<and> length parts' = length parts + length docs"
proof (induction docs arbitrary: idx parts)
  case Nil
  then show ?case by simp
next
  case (Cons d ds)
  have idx: "lim = 0 \<or> length (dec idx) \<le> lim"
    using Cons.prems(2) dec_length_mono [of idx "idx + length (d # ds) - 1"] by auto
  obtain b where b: "chunk_block_exc lim idx d = Inr b"
    using chunk_block_exc_ok [OF _ idx, of d] Cons.prems(1) by auto
  have "lim = 0 \<or> length (dec (Suc idx + length ds - 1)) \<le> lim" using Cons.prems(2) by simp
  then obtain parts' where "chunks_loop_exc lim (Suc idx) ds (parts @ [b]) = Inr parts'"
      "length parts' = length (parts @ [b]) + length ds"
    using Cons.IH [of "Suc idx" "parts @ [b]"] Cons.prems(1) by auto
  then show ?case using b by simp
qed

lemma ids_loop_exc_ok:
  "\<forall>d \<in> set docs. passage_ok lim d \<Longrightarrow>
   lim = 0 \<or> length (dec (idx + length docs - 1)) \<le> lim \<Longrightarrow>
   \<exists>parts' cits'. ids_loop_exc lim idx docs (parts, cits) = Inr (parts', cits')
      \<and> length parts' = length parts + length docs"
proof (induction docs arbitrary: idx parts cits)
  case Nil
  then show ?case by simp
next
  case (Cons d ds)
  have idx: "lim = 0 \<or> length (dec idx) \<le> lim"
    using Cons.prems(2) dec_length_mono [of idx "idx + length (d # ds) - 1"] by auto
  obtain b k c where b: "ids_step_exc lim idx d = Inr (b, k, c)"
    using ids_step_exc_ok [OF _ idx, of d] Cons.prems(1) by auto
  have "lim = 0 \<or> length (dec (Suc idx + length ds - 1)) \<le> lim" using Cons.prems(2) by simp
  then obtain parts' cits' where
      "ids_loop_exc lim (Suc idx) ds (parts @ [b], dict_set_exc cits k c) = Inr (parts', cits')"
      "length parts' = length (parts @ [b]) + length ds"
    using Cons.IH [of "Suc idx" "parts @ [b]" "dict_set_exc cits k c"] Cons.prems(1) by auto
  then show ?case using b by simp
qed

text \<open>
  C8, as stated: both serializers return a result, and never raise, for every sequence of
  passages whose attribute mapping supports lookup with a default, whatever keys are present,
  absent or falsy. This fails: the lookup returns whatever object the mapping holds, and
  \<open>or\<close> applies that object's truth test. A passage whose \<open>page\<close> value has a truth test
  that raises makes both serializers raise.
\<close>

theorem raising_page_counterexample:
  "serialize_chunks_exc 4300
     [\<lparr>page_content_exc = lit ''x'',
       metadata_exc = [lit ''page'' \<mapsto> Obj (Inl TypeError) (Inr (lit ''<NA>''))]\<rparr>]
     = Inl TypeError
   \<and> serialize_chunks_with_ids_exc 4300
     [\<lparr>page_content_exc = lit ''x'',
       metadata_exc = [lit ''page'' \<mapsto> Obj (Inl TypeError) (Inr (lit ''<NA>''))]\<rparr>]
     = Inl TypeError"
  by (simp add: serialize_chunks_exc_def serialize_chunks_with_ids_exc_def chunk_block_exc_def
      ids_step_exc_def page_num_exc_def get_exc_def dec_exc_def dec_digit)

text \<open>
  C8, amended: both serializers return a result for every sequence of passages in which
  every \<open>page\<close> value, when present, has a truth test and a formatting that return, every
  \<open>page_number\<close> value, when present, has a formatting that returns (for an integer, no
  more digits than the interpreter's limit), and the number of passages has no more digits
  than that limit. This holds for any combination of present, absent or falsy keys, any
  \<open>source\<close> value and any content. In the instance the \<open>source\<close> value is an object on
  which both operations raise, and the serializers return all the same.
\<close>

theorem returns_result:
  assumes "\<forall>d \<in> set docs. passage_ok lim d"
    and "lim = 0 \<or> length (dec (length docs)) \<le> lim"
  shows "(\<exists>s. serialize_chunks_exc lim docs = Inr s)
       \<and> (\<exists>c t. serialize_chunks_with_ids_exc lim docs = Inr (c, t))"
proof -
  obtain parts where "chunks_loop_exc lim 1 docs [] = Inr parts"
    using chunks_loop_exc_ok [OF assms(1), where idx = 1 and parts = "[]"] assms(2) by auto
  then have a: "\<exists>s. serialize_chunks_exc lim docs = Inr s"
    by (simp add: serialize_chunks_exc_def)
  obtain parts' cits' where "ids_loop_exc lim 1 docs ([], []) = Inr (parts', cits')"
    using ids_loop_exc_ok [OF assms(1), where idx = 1 and parts = "[]" and cits = "[]"] assms(2) by auto
  then have "\<exists>c t. serialize_chunks_with_ids_exc lim docs = Inr (c, t)"
    by (simp add: serialize_chunks_with_ids_exc_def)
  with a show ?thesis by blast
qed

theorem returns_result_witness:
  "passage_ok 4300
      \<lparr>page_content_exc = lit '' a '',
        metadata_exc = [lit ''page'' \<mapsto> Val (PInt 0), lit ''page_number'' \<mapsto> Val (PInt 9),
                        lit ''source'' \<mapsto> Obj (Inl TypeError) (Inl TypeError)]\<rparr>
   \<and> passage_ok 4300 \<lparr>page_content_exc = lit ''b'', metadata_exc = Map.empty\<rparr>
   \<and> length (dec (length
      [\<lparr>page_content_exc = lit '' a '',
        metadata_exc = [lit ''page'' \<mapsto> Val (PInt 0), lit ''page_number'' \<mapsto> Val (PInt 9),
                        lit ''source'' \<mapsto> Obj (Inl TypeError) (Inl TypeError)]\<rparr>,
       \<lparr>page_content_exc = lit ''b'', metadata_exc = Map.empty\<rparr>])) \<le> 4300
   \<and> (\<exists>s. serialize_chunks_exc 4300
      [\<lparr>page_content_exc = lit '' a '',
        metadata_exc = [lit ''page'' \<mapsto> Val (PInt 0), lit ''page_number'' \<mapsto> Val (PInt 9),
                        lit ''source'' \<mapsto> Obj (Inl TypeError) (Inl TypeError)]\<rparr>,
       \<lparr>page_content_exc = lit ''b'', metadata_exc = Map.empty\<rparr>] = Inr s)
   \<and> (\<exists>c t. serialize_chunks_with_ids_exc 4300
      [\<lparr>page_content_exc = lit '' a '',
        metadata_exc = [lit ''page'' \<mapsto> Val (PInt 0), lit ''page_number'' \<mapsto> Val (PInt 9),
                        lit ''source'' \<mapsto> Obj (Inl TypeError) (Inl TypeError)]\<rparr>,
       \<lparr>page_content_exc = lit ''b'', metadata_exc = Map.empty\<rparr>] = Inr (c, t))"
proof -
  let ?d1 = "\<lparr>page_content_exc = lit '' a '',
        metadata_exc = [lit ''page'' \<mapsto> Val (PInt 0), lit ''page_number'' \<mapsto> Val (PInt 9),
                        lit ''source'' \<mapsto> Obj (Inl TypeError) (Inl TypeError)]\<rparr>"
  let ?d2 = "\<lparr>page_content_exc = lit ''b'', metadata_exc = Map.empty\<rparr>"
  have ok1: "passage_ok 4300 ?d1"
    by (simp add: passage_ok_def testable_def displayable_def str_int_exc_def dec_digit lit_def)
  have ok2: "passage_ok 4300 ?d2"
    by (simp add: passage_ok_def)
  have h1: "\<forall>d \<in> set [?d1, ?d2]. passage_ok 4300 d"
    using ok1 ok2 by simp
  have len: "length (dec (length [?d1, ?d2])) \<le> 4300"
    by (simp add: dec_digit)
  then have h2: "(4300::nat) = 0 \<or> length (dec (length [?d1, ?d2])) \<le> 4300"
    by simp
  show ?thesis using ok1 ok2 len returns_result [OF h1 h2] by blast
qed

section \<open>Blank content\<close>



section \<open>Consistency of the two outputs\<close>



end
